theory Spec2Isabelle
  imports Complex_Main "HOL-Library.Log_Nat"
begin

section \<open>Data model of \<^verbatim>\<open>src/main.js\<close>\<close>

text \<open>
  The program is one JavaScript module: a global \<^verbatim>\<open>state\<close> object, a three.js scene and
  a handful of DOM event handlers. The model is a record \<open>world\<close> holding the \<^verbatim>\<open>state\<close>
  object, the part of the DOM the handlers read and write, and the part of the three.js
  scene they read and write. Every handler is a function from worlds to worlds: JavaScript
  runs a handler to completion before the next event is dispatched.

  Numbers. A JavaScript number is an IEEE double. Integers of the size that occurs here
  (character codes, array indices, canvas sizes) are exact and are modelled by \<open>nat\<close> and
  \<open>int\<close>. Coordinates, angles and opacities are modelled by \<open>real\<close>: the operations are
  those of the source, in the source's order, read in exact arithmetic. The code's values
  agree with these up to rounding, so a statement about them that rounding can break is
  not made on the exact value: the radius factor and the radius, where a bound of the
  specification sits exactly on a value the code computes, are also evaluated in binary64
  (\<open>factor64\<close>, \<open>radius64\<close>).

  Not modelled: audio (\<^verbatim>\<open>loadSound\<close>, \<^verbatim>\<open>playSound\<close>), the animation frame callback
  (it writes only rotations and the aura's opacity), the renderer and camera, the
  \<^verbatim>\<open>selected\<close> CSS class, and the canvas context's stroke style.
\<close>

text \<open>The result of \<^verbatim>\<open>parseInt\<close>: an integer-valued number or \<^verbatim>\<open>NaN\<close>.\<close>

datatype jsnum = NaN | Num int

text \<open>
  \<^verbatim>\<open>state.shield.sigil\<close> holds a reference to the DOM element \<^verbatim>\<open>#sigil-canvas\<close>, not a
  copy of its pixels: the drawing lives in the element (field \<open>canvasPath\<close> below).
\<close>

datatype element = SigilCanvas

record shield =
  color :: "jsnum option"
  symbol :: "string option"
  sigil :: "element option"

record choicesMade =
  color :: bool
  symbol :: bool
  sigil :: bool

record state =
  currentScreen :: string
  energyType :: "string option"
  shield :: shield
  choicesMade :: choicesMade

text \<open>The four \<^verbatim>\<open>.screen\<close> elements; exactly one carries the class \<^verbatim>\<open>active\<close>.\<close>

datatype screen = IntroScreen | DiagnosticScreen | ConstructionScreen | ActivationScreen

type_synonym point = "real \<times> real"

text \<open>The path operations of the 2D context that \<^verbatim>\<open>generateSigil\<close> issues.\<close>

datatype path_cmd = MoveTo point | LineTo point | ClosePath

datatype wrapping = ClampToEdgeWrapping | RepeatWrapping

record texture =
  image :: element
  wrapS :: wrapping
  wrapT :: wrapping
  repeat :: "nat \<times> nat"

text \<open>\<^verbatim>\<open>shieldSphere.material\<close>: the fields the handlers write.\<close>

record material =
  tint :: int
  emissive :: int
  emissiveIntensity :: real
  opacity :: real
  texmap :: "texture option"

text \<open>
  A sprite created by \<^verbatim>\<open>new THREE.Sprite\<close>. Objects are compared by identity in
  \<^verbatim>\<open>scene.remove\<close>; \<open>sid\<close> is the identity (three.js numbers its objects from a global
  counter, here \<open>nextId\<close>). \<open>spriteMap\<close> is the image the sprite's material was loaded
  from; the other fields of the material are constants.
\<close>

record sprite =
  sid :: nat
  spriteMap :: string
  position :: "real \<times> real \<times> real"
  scale :: "real \<times> real \<times> real"

datatype obj = Starfield | Aura | ShieldSphere | AmbientLight | PointLight | SpriteObj sprite

record world =
  state :: state
  activeScreen :: screen
  activateDisabled :: bool
  canvasWidth :: nat
  canvasHeight :: nat
  canvasPath :: "path_cmd list"
  sigilInput :: string
  finalEnergyType :: string
  shieldMaterial :: material
  auraEmissiveIntensity :: real
  scene :: "obj list"
  symbolObjects :: "sprite list"
  nextId :: nat

section \<open>Navigation\<close>

definition switchScreen :: "screen \<Rightarrow> world \<Rightarrow> world" where
  "switchScreen screenId w = w\<lparr>activeScreen := screenId\<rparr>"

section \<open>Shield construction logic\<close>

text \<open>
  \<^verbatim>\<open>updateShieldVisuals\<close> is three consecutive \<^verbatim>\<open>if\<close> blocks; each is one function.
  The tests are JavaScript truthiness: \<^verbatim>\<open>null\<close>, the numbers \<^verbatim>\<open>0\<close> and \<^verbatim>\<open>NaN\<close> and the
  empty string are falsy, an element is truthy.
\<close>

definition colorStep :: "world \<Rightarrow> world" where
  "colorStep w =
     (case shield.color (shield (state w)) of
        Some (Num c) \<Rightarrow>
          if c \<noteq> 0
          then w\<lparr>shieldMaterial := (shieldMaterial w)
                 \<lparr>tint := c, emissive := c, emissiveIntensity := 0.5, opacity := 0.2\<rparr>\<rparr>
          else w
      | _ \<Rightarrow> w)"

definition symbolAngle :: "nat \<Rightarrow> real" where
  "symbolAngle i = (real i / 3) * pi * 2"

text \<open>One pass of the loop of lines 158-165: the sprite created, then added and pushed.\<close>

definition newSymbolSprite :: "string \<Rightarrow> nat \<Rightarrow> nat \<Rightarrow> sprite" where
  "newSymbolSprite url ident i =
     (let angle = symbolAngle i
      in \<lparr>sid = ident, spriteMap = url,
          position = (cos angle * 2.2, sin angle * 2.2, 0),
          scale = (0.5, 0.5, 0.5)\<rparr>)"

definition addSymbol :: "string \<Rightarrow> world \<Rightarrow> nat \<Rightarrow> world" where
  "addSymbol url w i =
     (let symbolSprite = newSymbolSprite url (nextId w) i
      in w\<lparr>scene := scene w @ [SpriteObj symbolSprite],
           symbolObjects := symbolObjects w @ [symbolSprite],
           nextId := Suc (nextId w)\<rparr>)"

definition clearSymbols :: "world \<Rightarrow> world" where
  "clearSymbols w =
     w\<lparr>scene := foldl (\<lambda>children ob. remove1 (SpriteObj ob) children) (scene w) (symbolObjects w),
       symbolObjects := []\<rparr>"

definition symbolStep :: "world \<Rightarrow> world" where
  "symbolStep w =
     (case shield.symbol (shield (state w)) of
        Some url \<Rightarrow>
          if url \<noteq> [] then foldl (addSymbol url) (clearSymbols w) [0 ..< 3] else w
      | None \<Rightarrow> w)"

definition sigilStep :: "world \<Rightarrow> world" where
  "sigilStep w =
     (case shield.sigil (shield (state w)) of
        Some cv \<Rightarrow>
          w\<lparr>shieldMaterial := (shieldMaterial w)
              \<lparr>texmap := Some \<lparr>image = cv, wrapS = RepeatWrapping, wrapT = RepeatWrapping,
                               repeat = (3, 2)\<rparr>,
               opacity := max (opacity (shieldMaterial w)) 0.3\<rparr>\<rparr>
      | None \<Rightarrow> w)"

definition updateShieldVisuals :: "world \<Rightarrow> world" where
  "updateShieldVisuals w = sigilStep (symbolStep (colorStep w))"

definition isComplete :: "state \<Rightarrow> bool" where
  "isComplete s =
     (choicesMade.color (choicesMade s) \<and> choicesMade.symbol (choicesMade s)
      \<and> choicesMade.sigil (choicesMade s))"

definition checkConstructionComplete :: "world \<Rightarrow> world" where
  "checkConstructionComplete w =
     (if isComplete (state w) then w\<lparr>activateDisabled := False\<rparr>
      else w\<lparr>activateDisabled := True\<rparr>)"

section \<open>Sigil generation\<close>

text \<open>
  Strings. The input is the value of a text field, a sequence of UTF-16 code units. The
  model takes the inputs whose code units are below 256 (\<open>string\<close>, with \<open>of_char\<close> the
  code unit), and on them follows ECMAScript's \<^verbatim>\<open>String.prototype.trim\<close> and
  \<^verbatim>\<open>String.prototype.toUpperCase\<close>. Upper-casing leaves that range, so its result is a
  list of code units as natural numbers.
\<close>

text \<open>White space and line terminators of ECMAScript below U+0100.\<close>

definition isWhiteSpace :: "char \<Rightarrow> bool" where
  "isWhiteSpace c = (of_char c \<in> {9, 10, 11, 12, 13, 32, 160 :: nat})"

definition trim :: "string \<Rightarrow> string" where
  "trim word = rev (dropWhile isWhiteSpace (rev (dropWhile isWhiteSpace word)))"

text \<open>The test \<^verbatim>\<open>!word || word.trim() === ''\<close> of line 203.\<close>

definition isBlank :: "string \<Rightarrow> bool" where
  "isBlank word = (word = [] \<or> trim word = [])"

text \<open>
  The Unicode upper-case mapping of one code unit below U+0100: the letters a-z and the
  Latin-1 letters U+00E0-U+00FE (not the division sign U+00F7) move down by 32; the micro
  sign maps to U+039C, y with diaeresis to U+0178, and sharp s to the two letters SS.
\<close>

definition toUpperCaseUnit :: "nat \<Rightarrow> nat list" where
  "toUpperCaseUnit c =
     (if 97 \<le> c \<and> c \<le> 122 then [c - 32]
      else if c = 181 then [924]
      else if c = 223 then [83, 83]
      else if 224 \<le> c \<and> c \<le> 254 \<and> c \<noteq> 247 then [c - 32]
      else if c = 255 then [376]
      else [c])"

definition toUpperCase :: "string \<Rightarrow> nat list" where
  "toUpperCase word = concat (map (\<lambda>c. toUpperCaseUnit (of_char c)) word)"

text \<open>
  The remainder operator \<^verbatim>\<open>%\<close> on integers, for a divisor other than zero: the result has
  the sign of the dividend.
\<close>

definition js_rem :: "int \<Rightarrow> int \<Rightarrow> int" where
  "js_rem a b = sgn a * (\<bar>a\<bar> mod \<bar>b\<bar>)"






text \<open>
  The callback of \<^verbatim>\<open>chars.map\<close> (lines 206-213), for \<open>n = chars.length\<close>, in exact
  arithmetic: the radius factor is the exact \<open>r / 20 + 1 / 2\<close>, which \<open>factor64\<close> misses by
  at most \<open>2 ^ -54\<close>, and \<open>cos\<close>, \<open>sin\<close> and \<open>pi\<close> are the exact functions and number.
\<close>

definition sigilPoint :: "nat \<Rightarrow> nat \<Rightarrow> nat \<Rightarrow> nat \<Rightarrow> nat \<Rightarrow> point" where
  "sigilPoint width height n char index =
     (let charCode = int char - 65;
          angle = (real index / real n) * pi * 2;
          radius = (real width / 2 - 10) * (real_of_int (js_rem charCode 10) / 10 * 0.5 + 0.5);
          x = real width / 2 + cos angle * radius;
          y = real height / 2 + sin angle * radius
      in (x, y))"

definition sigilPoints :: "nat \<Rightarrow> nat \<Rightarrow> nat list \<Rightarrow> point list" where
  "sigilPoints width height chars =
     map (\<lambda>(char, index). sigilPoint width height (length chars) char index)
       (zip chars [0 ..< length chars])"

text \<open>
  The formula of the specification read on the text as typed, to compare with \<open>sigilPoint\<close>:
  the character is the one at position \<open>i\<close> of the input, \<open>n\<close> is the number of characters
  of the input, and \<open>mod\<close> is the mathematical remainder, which is never negative.
\<close>

definition specPoint :: "nat \<Rightarrow> nat \<Rightarrow> string \<Rightarrow> nat \<Rightarrow> point" where
  "specPoint width height word i =
     (let n = length word;
          val = int (of_char (word ! i)) - 65;
          angle = (real i / real n) * (2 * pi);
          radius = (real width / 2 - 10) * (0.5 + 0.5 * (real_of_int (val mod 10) / 10))
      in (real width / 2 + cos angle * radius, real height / 2 + sin angle * radius))"

text \<open>
  \<^verbatim>\<open>beginPath\<close>, \<^verbatim>\<open>moveTo(points[0])\<close>, the \<^verbatim>\<open>lineTo\<close> loop from index 1 and the
  conditional \<^verbatim>\<open>closePath\<close>. Reading \<^verbatim>\<open>points[0].x\<close> of an empty array is a
  \<^verbatim>\<open>TypeError\<close>.
\<close>

datatype js_error = TypeError

fun sigilPath :: "point list \<Rightarrow> js_error + path_cmd list" where
  "sigilPath [] = Inl TypeError"
| "sigilPath (p0 # ps) =
     Inr (MoveTo p0 # map LineTo ps @ (if length (p0 # ps) > 2 then [ClosePath] else []))"

definition setSigil :: "world \<Rightarrow> world" where
  "setSigil w =
     w\<lparr>state := (state w)
         \<lparr>shield := (shield (state w))\<lparr>shield.sigil := Some SigilCanvas\<rparr>,
          choicesMade := (choicesMade (state w))\<lparr>choicesMade.sigil := True\<rparr>\<rparr>\<rparr>"

text \<open>
  \<^verbatim>\<open>generateSigil\<close>. The canvas is cleared first, in every case. An exception leaves the
  handler with the world as it is at that point (\<open>Inl\<close>); the path is painted by
  \<^verbatim>\<open>stroke\<close>, after the last place that can throw.
\<close>

definition generateSigil :: "string \<Rightarrow> world \<Rightarrow> js_error \<times> world + world" where
  "generateSigil word w0 =
     (let width = canvasWidth w0;
          height = canvasHeight w0;
          w = w0\<lparr>canvasPath := []\<rparr>
      in if isBlank word then Inr w
         else
           let chars = toUpperCase word;
               points = sigilPoints width height chars
           in case sigilPath points of
                Inl e \<Rightarrow> Inl (e, w)
              | Inr path \<Rightarrow>
                  Inr (checkConstructionComplete
                        (updateShieldVisuals (setSigil (w\<lparr>canvasPath := path\<rparr>)))))"

text \<open>The points of a painted path, in order: the glyph.\<close>

fun cmdPoint :: "path_cmd \<Rightarrow> point option" where
  "cmdPoint (MoveTo p) = Some p"
| "cmdPoint (LineTo p) = Some p"
| "cmdPoint ClosePath = None"

definition glyphPoints :: "path_cmd list \<Rightarrow> point list" where
  "glyphPoints path = List.map_filter cmdPoint path"

text \<open>The straight segments of a painted path: one per \<^verbatim>\<open>lineTo\<close>.\<close>

fun isLineTo :: "path_cmd \<Rightarrow> bool" where
  "isLineTo (LineTo p) = True"
| "isLineTo c = False"

definition segments :: "path_cmd list \<Rightarrow> nat" where
  "segments path = length (filter isLineTo path)"

definition pathClosed :: "path_cmd list \<Rightarrow> bool" where
  "pathClosed path = (ClosePath \<in> set path)"

section \<open>Event handlers\<close>

text \<open>
  The payload of a click is what the handler reads from the DOM: the \<^verbatim>\<open>data-type\<close>,
  \<^verbatim>\<open>data-color\<close> (after \<^verbatim>\<open>parseInt\<close>) and \<^verbatim>\<open>data-symbol\<close> attribute of the clicked
  element, and the text in \<^verbatim>\<open>#sigil-input\<close> at the time of the click.
\<close>

definition startDiagnostic :: "world \<Rightarrow> world" where
  "startDiagnostic w = (switchScreen DiagnosticScreen w)\<lparr>auraEmissiveIntensity := 0.5\<rparr>"

definition answer :: "string \<Rightarrow> world \<Rightarrow> world" where
  "answer ty w =
     switchScreen ConstructionScreen
       (w\<lparr>state := (state w)\<lparr>energyType := Some ty\<rparr>, finalEnergyType := ty\<rparr>)"

definition pickColor :: "jsnum \<Rightarrow> world \<Rightarrow> world" where
  "pickColor c w =
     checkConstructionComplete (updateShieldVisuals
       (w\<lparr>state := (state w)
            \<lparr>shield := (shield (state w))\<lparr>shield.color := Some c\<rparr>,
             choicesMade := (choicesMade (state w))\<lparr>choicesMade.color := True\<rparr>\<rparr>\<rparr>))"

definition pickSymbol :: "string \<Rightarrow> world \<Rightarrow> world" where
  "pickSymbol url w =
     checkConstructionComplete (updateShieldVisuals
       (w\<lparr>state := (state w)
            \<lparr>shield := (shield (state w))\<lparr>shield.symbol := Some url\<rparr>,
             choicesMade := (choicesMade (state w))\<lparr>choicesMade.symbol := True\<rparr>\<rparr>\<rparr>))"

definition generateClick :: "world \<Rightarrow> world" where
  "generateClick w =
     (case generateSigil (sigilInput w) w of Inr w' \<Rightarrow> w' | Inl (e, w') \<Rightarrow> w')"

definition activateShield :: "world \<Rightarrow> world" where
  "activateShield w =
     (switchScreen ActivationScreen w)
       \<lparr>shieldMaterial := (shieldMaterial w)\<lparr>opacity := 0.7\<rparr>,
        auraEmissiveIntensity := 1.0\<rparr>"

definition restart :: "world \<Rightarrow> world" where
  "restart w =
     switchScreen IntroScreen
       (w\<lparr>state := (state w)
            \<lparr>energyType := None,
             shield := \<lparr>shield.color = None, shield.symbol = None, shield.sigil = None\<rparr>,
             choicesMade := \<lparr>choicesMade.color = False, choicesMade.symbol = False,
                              choicesMade.sigil = False\<rparr>\<rparr>,
          shieldMaterial := (shieldMaterial w)\<lparr>opacity := 0, texmap := None\<rparr>,
          auraEmissiveIntensity := 0,
          scene := foldl (\<lambda>children ob. remove1 (SpriteObj ob) children) (scene w)
                     (symbolObjects w),
          symbolObjects := [],
          sigilInput := [],
          canvasPath := [],
          activateDisabled := True\<rparr>)"

section \<open>Events\<close>

text \<open>
  One constructor per control that has a listener. None of the handlers tests the stage, so
  \<open>fire\<close> runs the handler whatever screen is active. The one gate is the platform's: a
  button whose \<^verbatim>\<open>disabled\<close> property is true dispatches no click, and the program sets
  that property of \<^verbatim>\<open>#activate-shield-btn\<close> in \<^verbatim>\<open>checkConstructionComplete\<close> and in the
  restart handler. \<open>ClickGenerate text\<close> is a click on the generate button while the input
  field holds \<open>text\<close>.
\<close>

datatype event =
    ClickStart
  | ClickAnswer string
  | ClickColor jsnum
  | ClickSymbol string
  | ClickGenerate string
  | ClickActivate
  | ClickRestart

fun fire :: "event \<Rightarrow> world \<Rightarrow> world" where
  "fire ClickStart w = startDiagnostic w"
| "fire (ClickAnswer ty) w = answer ty w"
| "fire (ClickColor c) w = pickColor c w"
| "fire (ClickSymbol url) w = pickSymbol url w"
| "fire (ClickGenerate text) w = generateClick (w\<lparr>sigilInput := text\<rparr>)"
| "fire ClickActivate w = (if activateDisabled w then w else activateShield w)"
| "fire ClickRestart w = restart w"

definition run :: "world \<Rightarrow> event list \<Rightarrow> world" where
  "run w evs = foldl (\<lambda>w e. fire e w) w evs"

text \<open>
  The world when the page has loaded. The \<^verbatim>\<open>state\<close> object is the literal of lines
  4-17 and the scene is the one \<^verbatim>\<open>initThree\<close> builds. \<^verbatim>\<open>index.html\<close> is not among the
  sources: the canvas size is a parameter, and the rest of the initial DOM is taken to be
  what the restart handler re-establishes (intro screen active, activate button disabled,
  empty canvas and input field).
\<close>

definition init :: "nat \<Rightarrow> nat \<Rightarrow> world" where
  "init width height =
     \<lparr>state = \<lparr>currentScreen = ''intro'', energyType = None,
               shield = \<lparr>shield.color = None, shield.symbol = None, shield.sigil = None\<rparr>,
               choicesMade = \<lparr>choicesMade.color = False, choicesMade.symbol = False,
                               choicesMade.sigil = False\<rparr>\<rparr>,
      activeScreen = IntroScreen,
      activateDisabled = True,
      canvasWidth = width,
      canvasHeight = height,
      canvasPath = [],
      sigilInput = [],
      finalEnergyType = [],
      shieldMaterial = \<lparr>tint = 0xffffff, emissive = 0, emissiveIntensity = 1, opacity = 0,
                         texmap = None\<rparr>,
      auraEmissiveIntensity = 0,
      scene = [Starfield, Aura, ShieldSphere, AmbientLight, PointLight],
      symbolObjects = [],
      nextId = 0\<rparr>"

text \<open>The sprites among the children of the scene, in order.\<close>

fun spriteOf :: "obj \<Rightarrow> sprite option" where
  "spriteOf (SpriteObj s) = Some s"
| "spriteOf ob = None"

definition sceneSprites :: "obj list \<Rightarrow> sprite list" where
  "sceneSprites children = List.map_filter spriteOf children"

text \<open>
  Three markers for the image \<open>url\<close>, at 0, 120 and 240 degrees on the circle of radius
  2.2 in the plane \<open>z = 0\<close>.
\<close>

definition orbit :: "string \<Rightarrow> sprite list \<Rightarrow> bool" where
  "orbit url markers =
     (length markers = 3
      \<and> (\<forall>i < 3. spriteMap (markers ! i) = url
             \<and> position (markers ! i)
                 = (cos (real i * (2 * pi / 3)) * 2.2, sin (real i * (2 * pi / 3)) * 2.2, 0)))"

text \<open>
  The scene and \<^verbatim>\<open>symbolObjects\<close> agree: the sprites in the scene are the markers, in
  order, and all were numbered before \<open>nextId\<close>.
\<close>

definition sceneOK :: "world \<Rightarrow> bool" where
  "sceneOK w =
     (sceneSprites (scene w) = symbolObjects w
      \<and> (\<forall>s \<in> set (symbolObjects w). sid s < nextId w))"

definition markersInv :: "world \<Rightarrow> bool" where
  "markersInv w =
     (sceneOK w
      \<and> (\<forall>url. shield.symbol (shield (state w)) = Some url \<and> url \<noteq> []
             \<longrightarrow> orbit url (symbolObjects w)))"

text \<open>The events since the last restart.\<close>

definition sinceReset :: "event list \<Rightarrow> event list" where
  "sinceReset evs = rev (takeWhile (\<lambda>e. e \<noteq> ClickRestart) (rev evs))"

text \<open>What \<^verbatim>\<open>generateSigil\<close> paints for a word that is not blank.\<close>

definition paintedPath :: "nat \<Rightarrow> nat \<Rightarrow> string \<Rightarrow> path_cmd list" where
  "paintedPath width height word =
     (case sigilPath (sigilPoints width height (toUpperCase word)) of
        Inr path \<Rightarrow> path
      | Inl e \<Rightarrow> [])"

text \<open>
  The invariant of the choice tracker along a run: every flag agrees with its value, the
  activate button is disabled exactly when a flag is missing, and every flag records a
  choice made since the last restart.
\<close>

definition tracked :: "event list \<Rightarrow> world \<Rightarrow> bool" where
  "tracked evs w =
     ((choicesMade.color (choicesMade (state w)) = (shield.color (shield (state w)) \<noteq> None))
    \<and> (choicesMade.symbol (choicesMade (state w)) = (shield.symbol (shield (state w)) \<noteq> None))
    \<and> (choicesMade.sigil (choicesMade (state w)) = (shield.sigil (shield (state w)) \<noteq> None))
    \<and> (activateDisabled w = (\<not> isComplete (state w)))
    \<and> (choicesMade.color (choicesMade (state w)) = (\<exists>c. ClickColor c \<in> set (sinceReset evs)))
    \<and> (choicesMade.symbol (choicesMade (state w)) = (\<exists>u. ClickSymbol u \<in> set (sinceReset evs)))
    \<and> (choicesMade.sigil (choicesMade (state w))
         = (\<exists>t. ClickGenerate t \<in> set (sinceReset evs) \<and> \<not> isBlank t)))"

section \<open>Frame lemmas\<close>

lemma upt_0_3: "[0 ..< 3] = [0, 1, 2]"
  by (simp add: upt_rec)

lemma state_colorStep [simp]: "state (colorStep w) = state w"
  by (simp add: colorStep_def split: option.splits jsnum.splits)

lemma state_foldl_addSymbol [simp]: "state (foldl (addSymbol url) w ns) = state w"
  by (induction ns arbitrary: w) (simp_all add: addSymbol_def Let_def)

lemma state_symbolStep [simp]: "state (symbolStep w) = state w"
  by (simp add: symbolStep_def clearSymbols_def split: option.splits)

lemma state_sigilStep [simp]: "state (sigilStep w) = state w"
  by (simp add: sigilStep_def split: option.splits)

lemma state_updateShieldVisuals [simp]: "state (updateShieldVisuals w) = state w"
  by (simp add: updateShieldVisuals_def)

lemma material_foldl_addSymbol [simp]:
  "shieldMaterial (foldl (addSymbol url) w ns) = shieldMaterial w"
  by (induction ns arbitrary: w) (simp_all add: addSymbol_def Let_def)

lemma material_symbolStep [simp]: "shieldMaterial (symbolStep w) = shieldMaterial w"
  by (simp add: symbolStep_def clearSymbols_def split: option.splits)

lemma dom_foldl_addSymbol [simp]:
  "activateDisabled (foldl (addSymbol url) w ns) = activateDisabled w"
  "activeScreen (foldl (addSymbol url) w ns) = activeScreen w"
  "canvasPath (foldl (addSymbol url) w ns) = canvasPath w"
  by (induction ns arbitrary: w) (simp_all add: addSymbol_def Let_def)

lemma dom_updateShieldVisuals [simp]:
  "activateDisabled (updateShieldVisuals w) = activateDisabled w"
  "activeScreen (updateShieldVisuals w) = activeScreen w"
  "canvasPath (updateShieldVisuals w) = canvasPath w"
  by (simp_all add: updateShieldVisuals_def sigilStep_def symbolStep_def clearSymbols_def
      colorStep_def split: option.splits jsnum.splits)

lemma checkConstructionComplete_simps [simp]:
  "state (checkConstructionComplete w) = state w"
  "activeScreen (checkConstructionComplete w) = activeScreen w"
  "canvasPath (checkConstructionComplete w) = canvasPath w"
  "activateDisabled (checkConstructionComplete w) = (\<not> isComplete (state w))"
  by (simp_all add: checkConstructionComplete_def)

section \<open>The opacity floor\<close>

text \<open>
  C5. Whenever a sigil is present, \<^verbatim>\<open>updateShieldVisuals\<close> leaves the base layer with an
  opacity of at least 0.3 and of at least what the colour block left: the result is the
  larger of the two, so a lower value is raised to the floor and a higher one is kept.
\<close>

theorem sigil_opacity_floor:
  assumes "shield.sigil (shield (state w)) \<noteq> None"
  shows "0.3 \<le> opacity (shieldMaterial (updateShieldVisuals w))
       \<and> opacity (shieldMaterial (colorStep w)) \<le> opacity (shieldMaterial (updateShieldVisuals w))
       \<and> opacity (shieldMaterial (updateShieldVisuals w))
           = max (opacity (shieldMaterial (colorStep w))) 0.3"
  using assms by (auto simp: updateShieldVisuals_def sigilStep_def split: option.splits)

text \<open>
  At a world where the colour block sets 0.2 the result is 0.3; at a world without a colour
  whose opacity is 0.7 the result stays 0.7.
\<close>

theorem sigil_opacity_floor_witness:
  "shield.sigil (shield (state (setSigil (pickColor (Num 255) (init 300 300))))) \<noteq> None
   \<and> opacity (shieldMaterial (colorStep (setSigil (pickColor (Num 255) (init 300 300))))) = 0.2
   \<and> opacity (shieldMaterial (updateShieldVisuals (setSigil (pickColor (Num 255) (init 300 300))))) = 0.3
   \<and> shield.sigil (shield (state (setSigil (activateShield (init 300 300))))) \<noteq> None
   \<and> opacity (shieldMaterial (colorStep (setSigil (activateShield (init 300 300))))) = 0.7
   \<and> opacity (shieldMaterial (updateShieldVisuals (setSigil (activateShield (init 300 300))))) = 0.7"
proof -
  let ?w = "setSigil (pickColor (Num 255) (init 300 300))"
  let ?v = "setSigil (activateShield (init 300 300))"
  have s: "shield.sigil (shield (state ?w)) \<noteq> None" "shield.sigil (shield (state ?v)) \<noteq> None"
    by (simp_all add: setSigil_def)
  have c: "opacity (shieldMaterial (colorStep ?w)) = 0.2"
    by (simp add: setSigil_def colorStep_def pickColor_def init_def)
  have d: "opacity (shieldMaterial (colorStep ?v)) = 0.7"
    by (simp add: setSigil_def colorStep_def activateShield_def switchScreen_def init_def)
  show ?thesis
    using s c d sigil_opacity_floor [OF s(1)] sigil_opacity_floor [OF s(2)] by simp
qed

section \<open>Sigil generation: the two outcomes\<close>

lemma toUpperCaseUnit_nonempty: "toUpperCaseUnit c \<noteq> []"
  by (simp add: toUpperCaseUnit_def)

lemma toUpperCase_nonempty: "word \<noteq> [] \<Longrightarrow> toUpperCase word \<noteq> []"
  by (cases word) (simp_all add: toUpperCase_def toUpperCaseUnit_nonempty)

lemma length_sigilPoints [simp]: "length (sigilPoints width height chars) = length chars"
  by (simp add: sigilPoints_def)

lemma sigilPoints_nonblank:
  assumes "\<not> isBlank word"
  shows "\<exists>p0 ps. sigilPoints width height (toUpperCase word) = p0 # ps"
proof -
  from assms have "word \<noteq> []" by (simp add: isBlank_def)
  then have "length (sigilPoints width height (toUpperCase word)) \<noteq> 0"
    by (simp add: toUpperCase_nonempty)
  then show ?thesis by (cases "sigilPoints width height (toUpperCase word)") simp_all
qed

lemma paintedPath_nonblank:
  assumes "\<not> isBlank word"
  shows "\<exists>p0 ps. sigilPoints width height (toUpperCase word) = p0 # ps
           \<and> paintedPath width height word
               = MoveTo p0 # map LineTo ps @ (if length (p0 # ps) > 2 then [ClosePath] else [])"
proof -
  obtain p0 ps where "sigilPoints width height (toUpperCase word) = p0 # ps"
    using sigilPoints_nonblank [OF assms] by blast
  then show ?thesis by (simp add: paintedPath_def)
qed

lemma generateSigil_blank:
  "isBlank word \<Longrightarrow> generateSigil word w = Inr (w\<lparr>canvasPath := []\<rparr>)"
  by (simp add: generateSigil_def)

lemma generateSigil_nonblank:
  assumes "\<not> isBlank word"
  shows "generateSigil word w =
           Inr (checkConstructionComplete (updateShieldVisuals (setSigil
             (w\<lparr>canvasPath := paintedPath (canvasWidth w) (canvasHeight w) word\<rparr>))))"
proof -
  obtain p0 ps where "sigilPoints (canvasWidth w) (canvasHeight w) (toUpperCase word) = p0 # ps"
    using sigilPoints_nonblank [OF assms] by blast
  then show ?thesis
    using assms by (simp add: generateSigil_def paintedPath_def)
qed

lemma setSigil_simps [simp]:
  "state (setSigil w) = (state w)\<lparr>shield := (shield (state w))\<lparr>shield.sigil := Some SigilCanvas\<rparr>,
       choicesMade := (choicesMade (state w))\<lparr>choicesMade.sigil := True\<rparr>\<rparr>"
  "activeScreen (setSigil w) = activeScreen w"
  "activateDisabled (setSigil w) = activateDisabled w"
  "canvasPath (setSigil w) = canvasPath w"
  by (simp_all add: setSigil_def)

lemma generateClick_blank:
  "isBlank (sigilInput w) \<Longrightarrow> generateClick w = w\<lparr>canvasPath := []\<rparr>"
  by (simp add: generateClick_def generateSigil_blank)

lemma generateClick_nonblank:
  "\<not> isBlank (sigilInput w) \<Longrightarrow>
   generateClick w = checkConstructionComplete (updateShieldVisuals (setSigil
      (w\<lparr>canvasPath := paintedPath (canvasWidth w) (canvasHeight w) (sigilInput w)\<rparr>)))"
  by (simp add: generateClick_def generateSigil_nonblank)

section \<open>Events: what each does to the tracked state\<close>

lemma pickColor_simps [simp]:
  "state (pickColor c w) = (state w)\<lparr>shield := (shield (state w))\<lparr>shield.color := Some c\<rparr>,
       choicesMade := (choicesMade (state w))\<lparr>choicesMade.color := True\<rparr>\<rparr>"
  "activeScreen (pickColor c w) = activeScreen w"
  "activateDisabled (pickColor c w) = (\<not> isComplete (state (pickColor c w)))"
  by (simp_all add: pickColor_def)

lemma pickSymbol_simps [simp]:
  "state (pickSymbol u w) = (state w)\<lparr>shield := (shield (state w))\<lparr>shield.symbol := Some u\<rparr>,
       choicesMade := (choicesMade (state w))\<lparr>choicesMade.symbol := True\<rparr>\<rparr>"
  "activeScreen (pickSymbol u w) = activeScreen w"
  "activateDisabled (pickSymbol u w) = (\<not> isComplete (state (pickSymbol u w)))"
  by (simp_all add: pickSymbol_def)

lemma generateClick_simps:
  "state (generateClick w) = (if isBlank (sigilInput w) then state w else state (setSigil w))"
  "activeScreen (generateClick w) = activeScreen w"
  "activateDisabled (generateClick w) =
     (if isBlank (sigilInput w) then activateDisabled w else \<not> isComplete (state (setSigil w)))"
  by (cases "isBlank (sigilInput w)"; simp add: generateClick_blank generateClick_nonblank)+

lemma navigation_simps [simp]:
  "state (startDiagnostic w) = state w"
  "activeScreen (startDiagnostic w) = DiagnosticScreen"
  "activateDisabled (startDiagnostic w) = activateDisabled w"
  "state (answer ty w) = (state w)\<lparr>energyType := Some ty\<rparr>"
  "activeScreen (answer ty w) = ConstructionScreen"
  "activateDisabled (answer ty w) = activateDisabled w"
  "state (activateShield w) = state w"
  "activeScreen (activateShield w) = ActivationScreen"
  "activateDisabled (activateShield w) = activateDisabled w"
  by (simp_all add: startDiagnostic_def answer_def activateShield_def switchScreen_def)

lemma restart_simps [simp]:
  "state (restart w) = (state w)\<lparr>energyType := None,
      shield := \<lparr>shield.color = None, shield.symbol = None, shield.sigil = None\<rparr>,
      choicesMade := \<lparr>choicesMade.color = False, choicesMade.symbol = False,
                       choicesMade.sigil = False\<rparr>\<rparr>"
  "activeScreen (restart w) = IntroScreen"
  "activateDisabled (restart w) = True"
  by (simp_all add: restart_def switchScreen_def)

lemma run_snoc [simp]: "run w (evs @ [e]) = fire e (run w evs)"
  by (simp add: run_def)

lemma run_Nil [simp]: "run w [] = w"
  by (simp add: run_def)

lemma run_Cons [simp]: "run w (e # evs) = run (fire e w) evs"
  by (simp add: run_def)

lemma sinceReset_snoc:
  "sinceReset (evs @ [e]) = (if e = ClickRestart then [] else sinceReset evs @ [e])"
  by (simp add: sinceReset_def)

lemma sinceReset_Nil [simp]: "sinceReset [] = []"
  by (simp add: sinceReset_def)

lemma tracked_init: "tracked [] (init width height)"
  by (simp add: tracked_def init_def isComplete_def)

lemma tracked_fire:
  assumes "tracked evs w"
  shows "tracked (evs @ [e]) (fire e w)"
proof (cases e)
  case (ClickGenerate t)
  then show ?thesis
    using assms
    by (cases "isBlank t")
       (auto simp: tracked_def sinceReset_snoc generateClick_simps isComplete_def)
qed (use assms in \<open>auto simp: tracked_def sinceReset_snoc isComplete_def\<close>)

lemma tracked_run: "tracked evs (run (init width height) evs)"
  by (induction evs rule: rev_induct) (simp_all add: tracked_init tracked_fire)

section \<open>Concrete inputs\<close>

lemma isBlank_examples:
  "isBlank []" "isBlank ''   ''" "\<not> isBlank ''ABC''" "\<not> isBlank ''AB''" "\<not> isBlank ''A''"
  "\<not> isBlank ''SHIELD''" "\<not> isBlank ''A 1''" "\<not> isBlank ''8''" "\<not> isBlank [CHR 0xDF]"
  by (simp_all add: isBlank_def trim_def isWhiteSpace_def)

lemma toUpperCase_examples:
  "toUpperCase ''A'' = [65]" "toUpperCase ''AB'' = [65, 66]" "toUpperCase ''ABC'' = [65, 66, 67]"
  "toUpperCase ''abc'' = [65, 66, 67]" "toUpperCase ''A 1'' = [65, 32, 49]"
  "toUpperCase ''8'' = [56]" "toUpperCase [CHR 0xDF] = [83, 83]"
  by (simp_all add: toUpperCase_def toUpperCaseUnit_def)

lemma js_rem_examples: "js_rem (- 33) 10 = - 3" "js_rem 18 10 = 8" "js_rem (- 9) 10 = - 9"
  by (simp_all add: js_rem_def)

section \<open>The choice tracker along a run\<close>

text \<open>
  C1. In every world reached from the initial one by any sequence of events, each flag of
  \<^verbatim>\<open>state.choicesMade\<close> is true exactly when the value of \<^verbatim>\<open>state.shield\<close> it belongs
  to is not \<^verbatim>\<open>null\<close>; the activate button is enabled (construction is reported
  complete) exactly when all three flags are true; and a flag is true exactly when its
  choice was made since the last restart: a colour click, a symbol click, a click on
  generate with a text that is not blank.
\<close>

theorem choice_tracker_invariant:
  assumes "w = run (init width height) evs"
  shows "(choicesMade.color (choicesMade (state w)) \<longleftrightarrow> shield.color (shield (state w)) \<noteq> None)
    \<and> (choicesMade.symbol (choicesMade (state w)) \<longleftrightarrow> shield.symbol (shield (state w)) \<noteq> None)
    \<and> (choicesMade.sigil (choicesMade (state w)) \<longleftrightarrow> shield.sigil (shield (state w)) \<noteq> None)
    \<and> (\<not> activateDisabled w \<longleftrightarrow>
          choicesMade.color (choicesMade (state w)) \<and> choicesMade.symbol (choicesMade (state w))
          \<and> choicesMade.sigil (choicesMade (state w)))
    \<and> (choicesMade.color (choicesMade (state w)) \<longleftrightarrow> (\<exists>c. ClickColor c \<in> set (sinceReset evs)))
    \<and> (choicesMade.symbol (choicesMade (state w)) \<longleftrightarrow> (\<exists>u. ClickSymbol u \<in> set (sinceReset evs)))
    \<and> (choicesMade.sigil (choicesMade (state w)) \<longleftrightarrow>
          (\<exists>t. ClickGenerate t \<in> set (sinceReset evs) \<and> \<not> isBlank t))"
  using tracked_run [of evs width height] assms
  unfolding tracked_def isComplete_def by blast

text \<open>
  After colour, symbol and the text SHIELD the button is enabled; after a restart followed
  by colour, symbol and a blank text it is disabled and no sigil is stored.
\<close>

theorem choice_tracker_invariant_witness:
  "\<not> activateDisabled (run (init 300 300)
      [ClickStart, ClickAnswer ''calm'', ClickColor (Num 255), ClickSymbol ''flame.png'',
       ClickGenerate ''SHIELD''])
   \<and> activateDisabled (run (init 300 300)
      [ClickColor (Num 255), ClickSymbol ''flame.png'', ClickGenerate ''SHIELD'',
       ClickRestart, ClickColor (Num 255), ClickSymbol ''flame.png'', ClickGenerate ''   ''])
   \<and> shield.sigil (shield (state (run (init 300 300)
      [ClickColor (Num 255), ClickSymbol ''flame.png'', ClickGenerate ''SHIELD'',
       ClickRestart, ClickColor (Num 255), ClickSymbol ''flame.png'', ClickGenerate ''   '']))) = None"
proof -
  let ?a = "[ClickStart, ClickAnswer ''calm'', ClickColor (Num 255), ClickSymbol ''flame.png'',
       ClickGenerate ''SHIELD'']"
  let ?b = "[ClickColor (Num 255), ClickSymbol ''flame.png'', ClickGenerate ''SHIELD'',
       ClickRestart, ClickColor (Num 255), ClickSymbol ''flame.png'', ClickGenerate ''   '']"
  have a: "sinceReset ?a = ?a"
    by (simp add: sinceReset_def)
  have b: "sinceReset ?b = [ClickColor (Num 255), ClickSymbol ''flame.png'', ClickGenerate ''   '']"
    by (simp add: sinceReset_def)
  show ?thesis
    using choice_tracker_invariant [OF refl, of 300 300 ?a]
      choice_tracker_invariant [OF refl, of 300 300 ?b]
    unfolding a b by (auto simp add: isBlank_examples simp del: run_Cons)
qed

section \<open>Activation is gated by the button\<close>

text \<open>
  C4. In a reachable world on the construction screen in which one of the three flags is
  false, the activate button is disabled, so a click on it reaches no handler: the world,
  and with it the active screen, stays as it is. The rejection is the disabled control;
  the program produces no other signal.
\<close>

theorem activate_rejected_when_incomplete:
  assumes "w = run (init width height) evs"
    and "activeScreen w = ConstructionScreen"
    and "\<not> (choicesMade.color (choicesMade (state w)) \<and> choicesMade.symbol (choicesMade (state w))
            \<and> choicesMade.sigil (choicesMade (state w)))"
  shows "activateDisabled w \<and> fire ClickActivate w = w
         \<and> activeScreen (fire ClickActivate w) = ConstructionScreen"
proof -
  have "activateDisabled w = (\<not> isComplete (state w))"
    using tracked_run [of evs width height] assms(1) by (simp add: tracked_def)
  with assms(3) have "activateDisabled w"
    by (simp add: isComplete_def)
  with assms(2) show ?thesis by simp
qed

text \<open>
  On the construction screen, with a colour picked and a blank sigil text submitted, the
  click on activate changes nothing.
\<close>

theorem activate_rejected_when_incomplete_witness:
  "activeScreen (run (init 300 300)
      [ClickStart, ClickAnswer ''calm'', ClickColor (Num 255), ClickGenerate []])
     = ConstructionScreen
   \<and> \<not> choicesMade.sigil (choicesMade (state (run (init 300 300)
      [ClickStart, ClickAnswer ''calm'', ClickColor (Num 255), ClickGenerate []])))
   \<and> fire ClickActivate (run (init 300 300)
      [ClickStart, ClickAnswer ''calm'', ClickColor (Num 255), ClickGenerate []])
     = run (init 300 300) [ClickStart, ClickAnswer ''calm'', ClickColor (Num 255), ClickGenerate []]"
proof -
  let ?w = "run (init 300 300) [ClickStart, ClickAnswer ''calm'', ClickColor (Num 255), ClickGenerate []]"
  have a: "activeScreen ?w = ConstructionScreen"
    by (simp add: generateClick_simps)
  have b: "\<not> choicesMade.sigil (choicesMade (state ?w))"
    by (simp add: generateClick_simps isBlank_examples init_def)
  from b have c: "\<not> (choicesMade.color (choicesMade (state ?w))
       \<and> choicesMade.symbol (choicesMade (state ?w)) \<and> choicesMade.sigil (choicesMade (state ?w)))"
    by blast
  show ?thesis
    using a b activate_rejected_when_incomplete [OF refl a c] by blast
qed


section \<open>Restart\<close>

text \<open>
  C8. The restart handler, run from any world (so from the activation screen too), ends
  with the intro screen active, \<^verbatim>\<open>state.energyType\<close> null, the three values null and the
  three flags false. The handler is one transition of \<open>fire\<close>: the event loop runs it to
  completion, and no other handler sees a state in between.
\<close>

theorem restart_resets_everything:
  "fire ClickRestart w = restart w
   \<and> activeScreen (restart w) = IntroScreen
   \<and> energyType (state (restart w)) = None
   \<and> shield (state (restart w))
       = \<lparr>shield.color = None, shield.symbol = None, shield.sigil = None\<rparr>
   \<and> choicesMade (state (restart w))
       = \<lparr>choicesMade.color = False, choicesMade.symbol = False, choicesMade.sigil = False\<rparr>
   \<and> \<not> isComplete (state (restart w))
   \<and> activateDisabled (restart w)"
  by (simp add: isComplete_def)

text \<open>
  A full session up to the activation screen, then restart: the tracked state is the
  initial one again.
\<close>

theorem restart_resets_everything_witness:
  "activeScreen (run (init 300 300)
      [ClickStart, ClickAnswer ''calm'', ClickColor (Num 255), ClickSymbol ''flame.png'',
       ClickGenerate ''SHIELD'', ClickActivate]) = ActivationScreen
   \<and> energyType (state (run (init 300 300)
      [ClickStart, ClickAnswer ''calm'', ClickColor (Num 255), ClickSymbol ''flame.png'',
       ClickGenerate ''SHIELD'', ClickActivate])) = Some ''calm''
   \<and> isComplete (state (run (init 300 300)
      [ClickStart, ClickAnswer ''calm'', ClickColor (Num 255), ClickSymbol ''flame.png'',
       ClickGenerate ''SHIELD'', ClickActivate]))
   \<and> activeScreen (run (init 300 300)
      [ClickStart, ClickAnswer ''calm'', ClickColor (Num 255), ClickSymbol ''flame.png'',
       ClickGenerate ''SHIELD'', ClickActivate, ClickRestart]) = IntroScreen
   \<and> state (run (init 300 300)
      [ClickStart, ClickAnswer ''calm'', ClickColor (Num 255), ClickSymbol ''flame.png'',
       ClickGenerate ''SHIELD'', ClickActivate, ClickRestart]) = state (init 300 300)"
proof -
  let ?evs = "[ClickStart, ClickAnswer ''calm'', ClickColor (Num 255), ClickSymbol ''flame.png'',
       ClickGenerate ''SHIELD'', ClickActivate]"
  let ?w = "run (init 300 300) ?evs"
  have s: "state ?w = \<lparr>currentScreen = ''intro'', energyType = Some ''calm'',
        shield = \<lparr>shield.color = Some (Num 255), shield.symbol = Some ''flame.png'',
                   shield.sigil = Some SigilCanvas\<rparr>,
        choicesMade = \<lparr>choicesMade.color = True, choicesMade.symbol = True,
                        choicesMade.sigil = True\<rparr>\<rparr>"
    by (simp add: generateClick_simps isBlank_examples isComplete_def init_def)
  have a: "activeScreen ?w = ActivationScreen"
    by (simp add: generateClick_simps isBlank_examples isComplete_def init_def)
  have r: "run (init 300 300) (?evs @ [ClickRestart]) = restart ?w"
    unfolding run_snoc by simp
  have "state (restart ?w) = state (init 300 300)"
    using restart_resets_everything [of ?w] s by (simp add: init_def)
  moreover have "activeScreen (restart ?w) = IntroScreen"
    using restart_resets_everything [of ?w] by blast
  ultimately show ?thesis
    using s a r by (simp add: isComplete_def del: run_Cons)
qed

section \<open>Blank submissions\<close>

text \<open>
  C3. For a blank word (empty, or white space only) \<^verbatim>\<open>generateSigil\<close> returns normally
  with a cleared canvas, a glyph of zero points, and leaves the sigil flag as it was: it
  does not mark the sigil choice complete, and a flag that was false stays false.
\<close>

theorem blank_sigil_empty_glyph:
  assumes "isBlank word"
  shows "\<exists>w'. generateSigil word w = Inr w'
           \<and> canvasPath w' = [] \<and> glyphPoints (canvasPath w') = []
           \<and> choicesMade.sigil (choicesMade (state w')) = choicesMade.sigil (choicesMade (state w))"
  using assms by (simp add: generateSigil_blank glyphPoints_def)

text \<open>
  The empty text and three spaces are blank; submitted to the initial world, each gives the
  empty glyph and leaves the flag false.
\<close>

theorem blank_sigil_empty_glyph_witness:
  "isBlank [] \<and> isBlank ''   ''
   \<and> (\<exists>w'. generateSigil [] (init 300 300) = Inr w' \<and> glyphPoints (canvasPath w') = []
          \<and> \<not> choicesMade.sigil (choicesMade (state w')))
   \<and> (\<exists>w'. generateSigil ''   '' (init 300 300) = Inr w' \<and> glyphPoints (canvasPath w') = []
          \<and> \<not> choicesMade.sigil (choicesMade (state w')))"
proof -
  have b: "isBlank []" "isBlank ''   ''"
    by (simp_all add: isBlank_examples)
  have f: "\<not> choicesMade.sigil (choicesMade (state (init 300 300)))"
    by (simp add: init_def)
  show ?thesis
    using b f blank_sigil_empty_glyph [OF b(1), of "init 300 300"]
      blank_sigil_empty_glyph [OF b(2), of "init 300 300"]
    by auto
qed

subsection \<open>What a blank submission leaves alone\<close>

text \<open>
  C10. A blank submission changes the canvas only: the \<^verbatim>\<open>state\<close> object (the three
  values, the three flags, the energy type) and the activate button are as before. In
  particular a blank submission after a submission that was not blank leaves the sigil flag
  true and the stored sigil set, and completeness unchanged.
\<close>

theorem blank_sigil_frame:
  assumes "isBlank word"
  shows "(\<exists>w'. generateSigil word w = Inr w' \<and> w' = w\<lparr>canvasPath := []\<rparr>
            \<and> state w' = state w \<and> activateDisabled w' = activateDisabled w)
       \<and> (\<forall>prior. \<not> isBlank prior \<longrightarrow>
            (\<exists>w1 w2. generateSigil prior w = Inr w1 \<and> generateSigil word w1 = Inr w2
               \<and> choicesMade.sigil (choicesMade (state w2))
               \<and> shield.sigil (shield (state w2)) = Some SigilCanvas
               \<and> state w2 = state w1
               \<and> isComplete (state w2) = isComplete (state w1)
               \<and> activateDisabled w2 = activateDisabled w1))"
  using assms by (simp add: generateSigil_blank generateSigil_nonblank)

text \<open>
  SHIELD, then three spaces, from the initial world.
\<close>

theorem blank_sigil_frame_witness:
  "isBlank ''   '' \<and> \<not> isBlank ''SHIELD''
   \<and> (\<exists>w1 w2. generateSigil ''SHIELD'' (init 300 300) = Inr w1
          \<and> generateSigil ''   '' w1 = Inr w2
          \<and> choicesMade.sigil (choicesMade (state w2))
          \<and> shield.sigil (shield (state w2)) = Some SigilCanvas
          \<and> state w2 = state w1)"
proof -
  have b: "isBlank ''   ''" "\<not> isBlank ''SHIELD''"
    by (simp_all add: isBlank_examples)
  show ?thesis
    using b blank_sigil_frame [OF b(1), of "init 300 300"] by blast
qed

section \<open>The painted glyph\<close>

lemma glyphPoints_simps [simp]:
  "glyphPoints [] = []"
  "glyphPoints (MoveTo p # path) = p # glyphPoints path"
  "glyphPoints (LineTo p # path) = p # glyphPoints path"
  "glyphPoints (ClosePath # path) = glyphPoints path"
  by (simp_all add: glyphPoints_def)

lemma glyphPoints_LineTo: "glyphPoints (map LineTo ps @ path) = ps @ glyphPoints path"
  by (induction ps) simp_all

lemma segments_simps [simp]:
  "segments [] = 0"
  "segments (MoveTo p # path) = segments path"
  "segments (LineTo p # path) = Suc (segments path)"
  "segments (ClosePath # path) = segments path"
  by (simp_all add: segments_def)

lemma segments_LineTo: "segments (map LineTo ps @ path) = length ps + segments path"
  by (induction ps) simp_all

lemma sigilPoints_nth:
  "i < length chars \<Longrightarrow>
   sigilPoints width height chars ! i = sigilPoint width height (length chars) (chars ! i) i"
  by (simp add: sigilPoints_def)

lemma canvasPath_generateSigil_nonblank:
  assumes "\<not> isBlank word"
  shows "\<exists>w'. generateSigil word w = Inr w'
           \<and> canvasPath w' = paintedPath (canvasWidth w) (canvasHeight w) word"
  using assms by (simp add: generateSigil_nonblank setSigil_def)

lemma glyphPoints_paintedPath:
  assumes "\<not> isBlank word"
  shows "glyphPoints (paintedPath width height word) = sigilPoints width height (toUpperCase word)"
proof -
  obtain p0 ps where "sigilPoints width height (toUpperCase word) = p0 # ps"
    and "paintedPath width height word
          = MoveTo p0 # map LineTo ps @ (if length (p0 # ps) > 2 then [ClosePath] else [])"
    using paintedPath_nonblank [OF assms] by blast
  then show ?thesis by (simp add: glyphPoints_LineTo)
qed

lemma canvasPath_generateClick_nonblank:
  "\<not> isBlank (sigilInput w) \<Longrightarrow>
   canvasPath (generateClick w) = paintedPath (canvasWidth w) (canvasHeight w) (sigilInput w)"
  by (simp add: generateClick_nonblank)

section \<open>The point of each character\<close>

text \<open>
  C2, amended. For a word that is not blank, with \<open>chars\<close> the characters (code units) of
  the upper-cased word and \<open>n\<close> their number, \<^verbatim>\<open>generateSigil\<close> paints \<open>n\<close> points, and
  the point at position \<open>i\<close> is the canvas centre offset by
  \<open>(cos angle * radius, sin angle * radius)\<close> with \<open>angle = (i / n) * 2 pi\<close>, the value of
  the upper-cased character its code minus 65, and
  \<open>radius = (width / 2 - 10) * (0.5 + 0.5 * ((value rem 10) / 10))\<close>, where \<open>rem\<close> is the
  remainder with the sign of the value (the operator \<^verbatim>\<open>%\<close>, \<open>js_rem\<close>): for a character
  below \<^verbatim>\<open>A\<close> it is negative or zero. The formula is read in exact arithmetic.
\<close>

theorem sigil_point_formula:
  assumes "\<not> isBlank word" and "chars = toUpperCase word" and "n = length chars" and "i < n"
  shows "\<exists>w'. generateSigil word w = Inr w'
           \<and> length (glyphPoints (canvasPath w')) = n
           \<and> glyphPoints (canvasPath w') ! i =
               (let val = int (chars ! i) - 65;
                    angle = (real i / real n) * (2 * pi);
                    radius = (real (canvasWidth w) / 2 - 10)
                               * (0.5 + 0.5 * (real_of_int (js_rem val 10) / 10))
                in (real (canvasWidth w) / 2 + cos angle * radius,
                    real (canvasHeight w) / 2 + sin angle * radius))"
proof -
  obtain w' where w': "generateSigil word w = Inr w'"
    and p: "canvasPath w' = paintedPath (canvasWidth w) (canvasHeight w) word"
    using canvasPath_generateSigil_nonblank [OF assms(1)] by blast
  have g: "glyphPoints (canvasPath w') = sigilPoints (canvasWidth w) (canvasHeight w) chars"
    using glyphPoints_paintedPath [OF assms(1)] p assms(2) by simp
  have "sigilPoints (canvasWidth w) (canvasHeight w) chars ! i
          = sigilPoint (canvasWidth w) (canvasHeight w) n (chars ! i) i"
    using assms(3,4) by (simp add: sigilPoints_nth)
  then show ?thesis
    using w' g assms(3) by (simp add: sigilPoint_def Let_def algebra_simps)
qed

text \<open>
  The word \<^verbatim>\<open>a 1\<close> on a canvas of 300 by 200. It is upper-cased to \<^verbatim>\<open>A 1\<close>: the first
  point is that of \<^verbatim>\<open>A\<close> (value 0, radius 140 * 0.5 = 70), and the space has value -33,
  remainder -3, radius 140 * 0.35 = 49.
\<close>

theorem sigil_point_formula_witness:
  "\<not> isBlank ''a 1'' \<and> toUpperCase ''a 1'' = [65, 32, 49]
   \<and> (\<exists>w'. generateSigil ''a 1'' (init 300 200) = Inr w'
          \<and> length (glyphPoints (canvasPath w')) = 3
          \<and> glyphPoints (canvasPath w') ! 0 = (220, 100)
          \<and> glyphPoints (canvasPath w') ! 1
              = (150 + cos (1 / 3 * (2 * pi)) * 49, 100 + sin (1 / 3 * (2 * pi)) * 49))"
proof -
  have b: "\<not> isBlank ''a 1''"
    by (simp add: isBlank_def trim_def isWhiteSpace_def)
  have u: "toUpperCase ''a 1'' = [65, 32, 49]"
    by (simp add: toUpperCase_def toUpperCaseUnit_def)
  have c: "canvasWidth (init 300 200) = 300" "canvasHeight (init 300 200) = 200"
    by (simp_all add: init_def)
  have n: "3 = length [65, 32, 49 :: nat]" "(0::nat) < 3" "(1::nat) < 3"
    by simp_all
  obtain w1 where w1: "generateSigil ''a 1'' (init 300 200) = Inr w1"
    and l1: "length (glyphPoints (canvasPath w1)) = 3"
    and p1: "glyphPoints (canvasPath w1) ! 1
              = (150 + cos (1 / 3 * (2 * pi)) * 49, 100 + sin (1 / 3 * (2 * pi)) * 49)"
    using sigil_point_formula [OF b u [symmetric] n(1) n(3), of "init 300 200"]
    by (auto simp: js_rem_examples c Let_def)
  obtain w0 where w0: "generateSigil ''a 1'' (init 300 200) = Inr w0"
    and p0: "glyphPoints (canvasPath w0) ! 0 = (220, 100)"
    using sigil_point_formula [OF b u [symmetric] n(1) n(2), of "init 300 200"]
    by (auto simp: js_rem_def c Let_def)
  from w0 w1 have "w0 = w1" by simp
  with w1 l1 p1 p0 b u show ?thesis by blast
qed

text \<open>
  C2 as stated, read on the text as typed (\<open>specPoint\<close>), fails. For the digit 1 (value
  -16) the code's remainder is -6 and the point is at radius 28, where the mathematical
  remainder 4 gives radius 98. For \<^verbatim>\<open>a\<close> the code takes the value of \<^verbatim>\<open>A\<close>. For the
  two-character input sharp s, a the code paints three points.
\<close>

theorem typed_characters_formula_fails:
  "\<not> isBlank ''1''
   \<and> glyphPoints (canvasPath (fire (ClickGenerate ''1'') (init 300 300))) ! 0 = (178, 150)
   \<and> specPoint 300 300 ''1'' 0 = (248, 150)
   \<and> \<not> isBlank ''a''
   \<and> glyphPoints (canvasPath (fire (ClickGenerate ''a'') (init 300 300))) ! 0 = (220, 150)
   \<and> specPoint 300 300 ''a'' 0 = (234, 150)
   \<and> \<not> isBlank [CHR 0xDF, CHR ''a''] \<and> length [CHR 0xDF, CHR ''a''] = 2
   \<and> length (glyphPoints (canvasPath (fire (ClickGenerate [CHR 0xDF, CHR ''a'']) (init 300 300)))) = 3"
proof -
  have b: "\<not> isBlank ''1''" "\<not> isBlank ''a''" "\<not> isBlank [CHR 0xDF, CHR ''a'']"
    by (simp_all add: isBlank_def trim_def isWhiteSpace_def)
  have u: "toUpperCase ''1'' = [49]" "toUpperCase ''a'' = [65]"
    "toUpperCase [CHR 0xDF, CHR ''a''] = [83, 83, 65]"
    by (simp_all add: toUpperCase_def toUpperCaseUnit_def)
  have c: "canvasPath (fire (ClickGenerate t) (init 300 300)) = paintedPath 300 300 t"
    if "\<not> isBlank t" for t
    using that by (simp add: canvasPath_generateClick_nonblank init_def)
  have p1: "glyphPoints (paintedPath 300 300 ''1'') ! 0 = (178, 150)"
    by (simp add: glyphPoints_paintedPath b u sigilPoints_def sigilPoint_def js_rem_def)
  have p2: "glyphPoints (paintedPath 300 300 ''a'') ! 0 = (220, 150)"
    by (simp add: glyphPoints_paintedPath b u sigilPoints_def sigilPoint_def js_rem_def)
  have p3: "length (glyphPoints (paintedPath 300 300 [CHR 0xDF, CHR ''a''])) = 3"
    by (simp add: glyphPoints_paintedPath b u)
  have s1: "specPoint 300 300 ''1'' 0 = (248, 150)"
    by (simp add: specPoint_def)
  have s2: "specPoint 300 300 ''a'' 0 = (234, 150)"
    by (simp add: specPoint_def)
  show ?thesis
    using b p1 p2 p3 s1 s2 by (simp add: c del: fire.simps)
qed

section \<open>The shape of the glyph\<close>

lemma length_toUpperCaseUnit: "1 \<le> length (toUpperCaseUnit c)"
  by (simp add: toUpperCaseUnit_def)

lemma length_toUpperCase_ge: "length word \<le> length (toUpperCase word)"
proof (induction word)
  case Nil
  then show ?case by (simp add: toUpperCase_def)
next
  case (Cons c cs)
  then show ?case
    using length_toUpperCaseUnit [of "of_char c"] by (simp add: toUpperCase_def)
qed

lemma length_toUpperCase_eq:
  "\<forall>c \<in> set word. of_char c \<noteq> (223::nat) \<Longrightarrow> length (toUpperCase word) = length word"
  by (induction word) (simp_all add: toUpperCase_def toUpperCaseUnit_def)

text \<open>
  C6, amended. For a word that is not blank the glyph has exactly one point per code unit of
  the upper-cased word (\<open>n\<close> of them, at least one per character of the input, and exactly
  one per character when the input has no sharp s); the path moves to the first point and
  draws a straight segment to each further point in order, \<open>n - 1\<close> segments; it is closed
  back to the first point exactly when \<open>n\<close> is more than two. With \<open>n = 1\<close> the path is a
  single point without a segment.
\<close>

theorem sigil_glyph_shape:
  assumes "\<not> isBlank word" and "n = length (toUpperCase word)"
  shows "\<exists>w' p0 ps. generateSigil word w = Inr w'
           \<and> glyphPoints (canvasPath w') = p0 # ps
           \<and> length (p0 # ps) = n
           \<and> canvasPath w' = MoveTo p0 # map LineTo ps @ (if 2 < n then [ClosePath] else [])
           \<and> segments (canvasPath w') = n - 1
           \<and> (pathClosed (canvasPath w') \<longleftrightarrow> 2 < n)
           \<and> length word \<le> n
           \<and> ((\<forall>c \<in> set word. of_char c \<noteq> (223::nat)) \<longrightarrow> n = length word)"
proof -
  let ?W = "canvasWidth w" and ?H = "canvasHeight w"
  obtain w' where w': "generateSigil word w = Inr w'"
    and p: "canvasPath w' = paintedPath ?W ?H word"
    using canvasPath_generateSigil_nonblank [OF assms(1)] by blast
  obtain p0 ps where pts: "sigilPoints ?W ?H (toUpperCase word) = p0 # ps"
    and path: "paintedPath ?W ?H word
          = MoveTo p0 # map LineTo ps @ (if length (p0 # ps) > 2 then [ClosePath] else [])"
    using paintedPath_nonblank [OF assms(1)] by blast
  have len: "length (p0 # ps) = n"
    using pts assms(2) length_sigilPoints [of ?W ?H "toUpperCase word"] by simp
  have g: "glyphPoints (canvasPath w') = p0 # ps"
    using glyphPoints_paintedPath [OF assms(1)] p pts by simp
  have c: "canvasPath w' = MoveTo p0 # map LineTo ps @ (if 2 < n then [ClosePath] else [])"
    using p path len by simp
  have s: "segments (canvasPath w') = n - 1"
    using len by (auto simp: c segments_LineTo)
  have cl: "pathClosed (canvasPath w') \<longleftrightarrow> 2 < n"
    by (auto simp: c pathClosed_def)
  have e1: "length word \<le> n"
    using length_toUpperCase_ge [of word] assms(2) by simp
  have e2: "(\<forall>c \<in> set word. of_char c \<noteq> (223::nat)) \<longrightarrow> n = length word"
    using length_toUpperCase_eq [of word] assms(2) by simp
  show ?thesis
    by (rule exI [of _ w'], rule exI [of _ p0], rule exI [of _ ps])
       (intro conjI w' g len c s cl e1 e2)
qed


text \<open>
  \<^verbatim>\<open>AB\<close>: two points, one segment, open. \<^verbatim>\<open>ABC\<close>: three points, closed. \<^verbatim>\<open>A\<close>: one
  point, no segment.
\<close>

theorem sigil_glyph_shape_witness:
  "(\<exists>w' p0 ps. generateSigil ''AB'' (init 300 300) = Inr w' \<and> glyphPoints (canvasPath w') = p0 # ps
        \<and> length (p0 # ps) = 2 \<and> segments (canvasPath w') = 1 \<and> \<not> pathClosed (canvasPath w'))
   \<and> (\<exists>w' p0 ps. generateSigil ''ABC'' (init 300 300) = Inr w' \<and> glyphPoints (canvasPath w') = p0 # ps
        \<and> length (p0 # ps) = 3 \<and> segments (canvasPath w') = 2 \<and> pathClosed (canvasPath w'))
   \<and> (\<exists>w' p0 ps. generateSigil ''A'' (init 300 300) = Inr w' \<and> glyphPoints (canvasPath w') = p0 # ps
        \<and> length (p0 # ps) = 1 \<and> segments (canvasPath w') = 0 \<and> canvasPath w' = [MoveTo p0])"
proof -
  have n: "2 = length (toUpperCase ''AB'')" "3 = length (toUpperCase ''ABC'')"
    "1 = length (toUpperCase ''A'')"
    by (simp_all add: toUpperCase_examples)
  have b: "\<not> isBlank ''AB''" "\<not> isBlank ''ABC''" "\<not> isBlank ''A''"
    by (simp_all add: isBlank_examples)
  show ?thesis
    using sigil_glyph_shape [OF b(1) n(1), of "init 300 300"]
      sigil_glyph_shape [OF b(2) n(2), of "init 300 300"]
      sigil_glyph_shape [OF b(3) n(3), of "init 300 300"]
    by (intro conjI) (simp, blast?)+
qed

text \<open>
  C6 as stated fails for a single-character input whose upper-case form is longer: the sharp
  s (U+00DF) upper-cases to \<^verbatim>\<open>SS\<close>, and the one-character input yields two points and one
  segment.
\<close>

theorem single_character_two_points:
  "length [CHR 0xDF] = 1 \<and> \<not> isBlank [CHR 0xDF]
   \<and> glyphPoints (canvasPath (fire (ClickGenerate [CHR 0xDF]) (init 300 300)))
       = [(276, 150), (24, 150)]
   \<and> segments (canvasPath (fire (ClickGenerate [CHR 0xDF]) (init 300 300))) = 1"
proof -
  have p: "sigilPoints 300 300 [83, 83] = [(276, 150), (24, 150)]"
    by (simp add: sigilPoints_def sigilPoint_def js_rem_def upt_rec)
  have "canvasPath (fire (ClickGenerate [CHR 0xDF]) (init 300 300))
          = paintedPath 300 300 [CHR 0xDF]"
    by (simp add: canvasPath_generateClick_nonblank isBlank_examples init_def)
  also have "\<dots> = [MoveTo (276, 150), LineTo (24, 150)]"
    by (simp add: paintedPath_def toUpperCase_examples p)
  finally show ?thesis
    by (simp add: isBlank_examples)
qed

section \<open>Every point lies inside the margin circle\<close>



















section \<open>The orbit markers\<close>

lemma sceneSprites_simps [simp]:
  "sceneSprites [] = []"
  "sceneSprites (SpriteObj s # children) = s # sceneSprites children"
  "spriteOf ob = None \<Longrightarrow> sceneSprites (ob # children) = sceneSprites children"
  by (simp_all add: sceneSprites_def)

lemma sceneSprites_append [simp]:
  "sceneSprites (xs @ ys) = sceneSprites xs @ sceneSprites ys"
  by (induction xs) (simp_all add: sceneSprites_def split: option.splits)

lemma SpriteObj_in_scene: "SpriteObj s \<in> set children \<longleftrightarrow> s \<in> set (sceneSprites children)"
proof (induction children)
  case Nil
  then show ?case by simp
next
  case (Cons ob children)
  then show ?case by (cases ob) auto
qed

lemma sceneSprites_remove1:
  "sceneSprites children = s # rest \<Longrightarrow> sceneSprites (remove1 (SpriteObj s) children) = rest"
proof (induction children)
  case Nil
  then show ?case by simp
next
  case (Cons ob children)
  then show ?case by (cases ob) auto
qed

lemma sceneSprites_removed:
  "sceneSprites children = markers \<Longrightarrow>
   sceneSprites (foldl (\<lambda>children ob. remove1 (SpriteObj ob) children) children markers) = []"
proof (induction markers arbitrary: children)
  case Nil
  then show ?case by simp
next
  case (Cons s markers)
  then show ?case by (simp add: sceneSprites_remove1)
qed

lemma clearSymbols_simps [simp]:
  "state (clearSymbols w) = state w"
  "symbolObjects (clearSymbols w) = []"
  "nextId (clearSymbols w) = nextId w"
  by (simp_all add: clearSymbols_def)

lemma sceneSprites_clearSymbols:
  "sceneSprites (scene w) = symbolObjects w \<Longrightarrow> sceneSprites (scene (clearSymbols w)) = []"
  by (simp add: clearSymbols_def sceneSprites_removed)

lemma symbolStep_truthy:
  assumes "shield.symbol (shield (state w)) = Some url" and "url \<noteq> []"
    and "sceneSprites (scene w) = symbolObjects w"
  shows "symbolObjects (symbolStep w)
           = [newSymbolSprite url (nextId w) 0, newSymbolSprite url (Suc (nextId w)) 1,
              newSymbolSprite url (Suc (Suc (nextId w))) 2]"
    and "sceneSprites (scene (symbolStep w)) = symbolObjects (symbolStep w)"
    and "nextId (symbolStep w) = Suc (Suc (Suc (nextId w)))"
  using assms sceneSprites_clearSymbols [of w]
  by (simp_all add: symbolStep_def upt_0_3 addSymbol_def Let_def)

lemma symbolStep_falsy:
  "shield.symbol (shield (state w)) = None \<or> shield.symbol (shield (state w)) = Some []
   \<Longrightarrow> symbolStep w = w"
  by (auto simp: symbolStep_def)

lemma symbolAngle_eq: "symbolAngle i = real i * (2 * pi / 3)"
  by (simp add: symbolAngle_def)

lemma orbit_new:
  "orbit url [newSymbolSprite url a 0, newSymbolSprite url b 1, newSymbolSprite url c 2]"
  unfolding orbit_def
proof (intro conjI allI impI)
  fix i :: nat
  assume "i < 3"
  then consider "i = 0" | "i = 1" | "i = 2"
    by linarith
  then show "spriteMap ([newSymbolSprite url a 0, newSymbolSprite url b 1,
                 newSymbolSprite url c 2] ! i) = url"
    by cases (simp_all add: newSymbolSprite_def Let_def)
  from \<open>i < 3\<close> consider "i = 0" | "i = 1" | "i = 2"
    by linarith
  then show "position ([newSymbolSprite url a 0, newSymbolSprite url b 1,
                 newSymbolSprite url c 2] ! i)
      = (cos (real i * (2 * pi / 3)) * 2.2, sin (real i * (2 * pi / 3)) * 2.2, 0)"
    by cases (simp_all add: newSymbolSprite_def symbolAngle_eq Let_def)
qed simp

lemma sid_new [simp]: "sid (newSymbolSprite url a i) = a"
  by (simp add: newSymbolSprite_def Let_def)

lemma markers_colorStep [simp]:
  "scene (colorStep w) = scene w" "symbolObjects (colorStep w) = symbolObjects w"
  "nextId (colorStep w) = nextId w"
  by (simp_all add: colorStep_def split: option.splits jsnum.splits)

lemma markers_sigilStep [simp]:
  "scene (sigilStep w) = scene w" "symbolObjects (sigilStep w) = symbolObjects w"
  "nextId (sigilStep w) = nextId w"
  by (simp_all add: sigilStep_def split: option.splits)

lemma markers_checkConstructionComplete [simp]:
  "scene (checkConstructionComplete w) = scene w"
  "symbolObjects (checkConstructionComplete w) = symbolObjects w"
  "nextId (checkConstructionComplete w) = nextId w"
  by (simp_all add: checkConstructionComplete_def)

lemma sceneOK_colorStep [simp]: "sceneOK (colorStep w) = sceneOK w"
  by (simp add: sceneOK_def)

lemma markersInv_symbolStep:
  assumes "sceneOK w"
  shows "markersInv (symbolStep w)"
proof (cases "\<exists>url. shield.symbol (shield (state w)) = Some url \<and> url \<noteq> []")
  case True
  then obtain url where u: "shield.symbol (shield (state w)) = Some url" "url \<noteq> []"
    by blast
  from assms have s: "sceneSprites (scene w) = symbolObjects w"
    by (simp add: sceneOK_def)
  show ?thesis
    using symbolStep_truthy [OF u s] u orbit_new [of url]
    by (simp add: markersInv_def sceneOK_def)
next
  case False
  then have "shield.symbol (shield (state w)) = None \<or> shield.symbol (shield (state w)) = Some []"
    by (cases "shield.symbol (shield (state w))") auto
  then have "symbolStep w = w"
    by (rule symbolStep_falsy)
  with assms False show ?thesis
    by (auto simp: markersInv_def)
qed

lemma markersInv_sigilStep: "markersInv w \<Longrightarrow> markersInv (sigilStep w)"
  by (simp add: markersInv_def sceneOK_def)

lemma markersInv_checkConstructionComplete:
  "markersInv w \<Longrightarrow> markersInv (checkConstructionComplete w)"
  by (simp add: markersInv_def sceneOK_def)

lemma markersInv_updateShieldVisuals:
  "sceneOK w \<Longrightarrow> markersInv (updateShieldVisuals w)"
  by (simp add: updateShieldVisuals_def markersInv_sigilStep markersInv_symbolStep)

lemma markersInv_sceneOK: "markersInv w \<Longrightarrow> sceneOK w"
  by (simp add: markersInv_def)

lemma markersInv_pickColor: "markersInv w \<Longrightarrow> markersInv (pickColor c w)"
  unfolding pickColor_def
  by (intro markersInv_checkConstructionComplete markersInv_updateShieldVisuals)
     (simp add: markersInv_def sceneOK_def)

lemma markersInv_pickSymbol: "markersInv w \<Longrightarrow> markersInv (pickSymbol url w)"
  unfolding pickSymbol_def
  by (intro markersInv_checkConstructionComplete markersInv_updateShieldVisuals)
     (simp add: markersInv_def sceneOK_def)

lemma markersInv_generateClick: "markersInv w \<Longrightarrow> markersInv (generateClick w)"
proof (cases "isBlank (sigilInput w)")
  case True
  assume "markersInv w"
  with True show ?thesis
    by (simp add: generateClick_blank markersInv_def sceneOK_def)
next
  case False
  assume "markersInv w"
  then have "sceneOK (setSigil (w\<lparr>canvasPath :=
      paintedPath (canvasWidth w) (canvasHeight w) (sigilInput w)\<rparr>))"
    by (simp add: markersInv_def sceneOK_def setSigil_def)
  then show ?thesis
    using False
    by (simp add: generateClick_nonblank markersInv_checkConstructionComplete
        markersInv_updateShieldVisuals)
qed

lemma markersInv_restart: "markersInv w \<Longrightarrow> markersInv (restart w)"
  by (simp add: markersInv_def sceneOK_def restart_def switchScreen_def sceneSprites_removed)

lemma markersInv_fire: "markersInv w \<Longrightarrow> markersInv (fire e w)"
proof (cases e)
  case (ClickGenerate t)
  assume "markersInv w"
  then have "markersInv (w\<lparr>sigilInput := t\<rparr>)"
    by (simp add: markersInv_def sceneOK_def)
  then show ?thesis
    using ClickGenerate by (simp add: markersInv_generateClick)
next
  case ClickStart
  assume "markersInv w"
  then show ?thesis
    using ClickStart
    by (simp add: markersInv_def sceneOK_def startDiagnostic_def switchScreen_def)
next
  case (ClickAnswer ty)
  assume "markersInv w"
  then show ?thesis
    using ClickAnswer
    by (simp add: markersInv_def sceneOK_def answer_def switchScreen_def)
next
  case ClickActivate
  assume "markersInv w"
  then show ?thesis
    using ClickActivate
    by (simp add: markersInv_def sceneOK_def activateShield_def switchScreen_def)
qed (simp_all add: markersInv_pickColor markersInv_pickSymbol markersInv_restart)

lemma markersInv_init: "markersInv (init width height)"
  by (simp add: markersInv_def sceneOK_def init_def)

lemma markersInv_run: "markersInv (run (init width height) evs)"
  by (induction evs rule: rev_induct) (simp_all add: markersInv_init markersInv_fire)


lemma symbolObjects_pickSymbol:
  assumes "sceneOK w" and "url \<noteq> []"
  shows "symbolObjects (pickSymbol url w)
           = [newSymbolSprite url (nextId w) 0, newSymbolSprite url (Suc (nextId w)) 1,
              newSymbolSprite url (Suc (Suc (nextId w))) 2]"
proof -
  let ?w1 = "colorStep (w\<lparr>state := (state w)
            \<lparr>shield := (shield (state w))\<lparr>shield.symbol := Some url\<rparr>,
             choicesMade := (choicesMade (state w))\<lparr>choicesMade.symbol := True\<rparr>\<rparr>\<rparr>)"
  have a: "shield.symbol (shield (state ?w1)) = Some url"
    by simp
  have b: "sceneSprites (scene ?w1) = symbolObjects ?w1"
    using assms(1) by (simp add: sceneOK_def)
  show ?thesis
    using symbolStep_truthy(1) [OF a assms(2) b]
    by (simp add: pickSymbol_def updateShieldVisuals_def)
qed

subsection \<open>Three markers, replaced as a set\<close>

text \<open>
  C7. In every reachable world whose symbol choice is present (a non-empty image name) the
  markers are exactly three sprites carrying that image, at 0, 120 and 240 degrees on the
  circle of radius 2.2, and they are the only sprites in the scene. A click on a symbol
  builds three such markers for the new image, and none of the markers that were there
  before is left in the scene.
\<close>

theorem symbol_markers_replaced:
  assumes "w = run (init width height) evs" and "url \<noteq> []"
    and "w' = fire (ClickSymbol url) w"
  shows "length (symbolObjects w') = 3
       \<and> orbit url (symbolObjects w')
       \<and> sceneSprites (scene w') = symbolObjects w'
       \<and> (\<forall>old \<in> set (symbolObjects w). SpriteObj old \<notin> set (scene w'))
       \<and> (\<forall>u. shield.symbol (shield (state w)) = Some u \<and> u \<noteq> []
              \<longrightarrow> orbit u (symbolObjects w) \<and> sceneSprites (scene w) = symbolObjects w)"
proof -
  have inv: "markersInv w"
    using assms(1) markersInv_run by simp
  then have ok: "sceneOK w"
    by (rule markersInv_sceneOK)
  have inv': "markersInv w'"
    using markersInv_fire [OF inv, of "ClickSymbol url"] assms(3) by simp
  have sym: "shield.symbol (shield (state w')) = Some url"
    using assms(3) by simp
  have orb: "orbit url (symbolObjects w')"
    using inv' sym assms(2) by (simp add: markersInv_def)
  then have len: "length (symbolObjects w') = 3"
    by (simp add: orbit_def)
  have sc: "sceneSprites (scene w') = symbolObjects w'"
    using inv' by (simp add: markersInv_def sceneOK_def)
  have new: "symbolObjects w'
           = [newSymbolSprite url (nextId w) 0, newSymbolSprite url (Suc (nextId w)) 1,
              newSymbolSprite url (Suc (Suc (nextId w))) 2]"
    using symbolObjects_pickSymbol [OF ok assms(2)] assms(3) by simp
  have gone: "SpriteObj old \<notin> set (scene w')" if "old \<in> set (symbolObjects w)" for old
  proof
    assume "SpriteObj old \<in> set (scene w')"
    then have "old \<in> set (symbolObjects w')"
      by (simp add: SpriteObj_in_scene sc)
    then have "nextId w \<le> sid old"
      unfolding new by auto
    moreover have "sid old < nextId w"
      using ok that by (simp add: sceneOK_def)
    ultimately show False by simp
  qed
  have before: "orbit u (symbolObjects w) \<and> sceneSprites (scene w) = symbolObjects w"
    if "shield.symbol (shield (state w)) = Some u \<and> u \<noteq> []" for u
    using inv that by (simp add: markersInv_def sceneOK_def)
  show ?thesis
    using len orb sc gone before by blast
qed

text \<open>
  A symbol is picked, then another: the three sprites numbered 0, 1, 2 give way to three
  sprites of the new image.
\<close>

theorem symbol_markers_replaced_witness:
  "symbolObjects (run (init 300 300) [ClickSymbol ''flame.png''])
     = [newSymbolSprite ''flame.png'' 0 0, newSymbolSprite ''flame.png'' 1 1,
        newSymbolSprite ''flame.png'' 2 2]
   \<and> length (symbolObjects (fire (ClickSymbol ''star.png'')
                (run (init 300 300) [ClickSymbol ''flame.png'']))) = 3
   \<and> orbit ''star.png'' (symbolObjects (fire (ClickSymbol ''star.png'')
                (run (init 300 300) [ClickSymbol ''flame.png''])))
   \<and> sceneSprites (scene (fire (ClickSymbol ''star.png'')
                (run (init 300 300) [ClickSymbol ''flame.png''])))
       = symbolObjects (fire (ClickSymbol ''star.png'')
                (run (init 300 300) [ClickSymbol ''flame.png'']))
   \<and> SpriteObj (newSymbolSprite ''flame.png'' 0 0)
       \<notin> set (scene (fire (ClickSymbol ''star.png'')
                (run (init 300 300) [ClickSymbol ''flame.png''])))"
proof -
  have ok: "sceneOK (init 300 300)"
    by (simp add: sceneOK_def init_def)
  have n: "nextId (init 300 300) = 0"
    by (simp add: init_def)
  have old: "symbolObjects (run (init 300 300) [ClickSymbol ''flame.png''])
     = [newSymbolSprite ''flame.png'' 0 0, newSymbolSprite ''flame.png'' 1 1,
        newSymbolSprite ''flame.png'' 2 2]"
    using symbolObjects_pickSymbol [OF ok, of "''flame.png''"] by (simp add: n numeral_2_eq_2)
  have u: "''star.png'' \<noteq> []"
    by simp
  show ?thesis
    using symbol_markers_replaced [OF refl u refl, of 300 300 "[ClickSymbol ''flame.png'']"]
    unfolding old by (simp del: run_Cons fire.simps)
qed

end
